theory Spec2Isabelle
  imports Main
begin

section \<open>The class declarations of \<open>python/tvm/error.py\<close>\<close>

text \<open>
  The module is a list of class statements. Each statement names the class, lists its
  bases in order and, for all but the root, is decorated with \<open>@register_error\<close>.
  The classes of the module and the builtin exception classes they derive from are the
  constructors of one datatype.
\<close>

datatype pyclass =
    Object | BaseException | Exception
  | RuntimeError | OSError | TimeoutError | NotImplementedError | AttributeError
  | TVMError
  | InternalError
  | RPCError | RPCSessionTimeoutError
  | OpError | OpNotImplemented | OpAttributeRequired | OpAttributeInvalid
  | OpAttributeUnImplemented
  | DiagnosticError

text \<open>
  The bases of every class, in the order of the class statement. The first eight lines
  are Python's builtin exception hierarchy, the rest is the module, line by line.
\<close>

fun bases :: "pyclass \<Rightarrow> pyclass list" where
  "bases Object = []"
| "bases BaseException = [Object]"
| "bases Exception = [BaseException]"
| "bases RuntimeError = [Exception]"
| "bases OSError = [Exception]"
| "bases TimeoutError = [OSError]"
| "bases NotImplementedError = [RuntimeError]"
| "bases AttributeError = [Exception]"
| "bases TVMError = [RuntimeError]"
| "bases InternalError = [TVMError]"
| "bases RPCError = [TVMError]"
| "bases RPCSessionTimeoutError = [RPCError, TimeoutError]"
| "bases OpError = [TVMError]"
| "bases OpNotImplemented = [OpError, NotImplementedError]"
| "bases OpAttributeRequired = [OpError, AttributeError]"
| "bases OpAttributeInvalid = [OpError, AttributeError]"
| "bases OpAttributeUnImplemented = [OpError, NotImplementedError]"
| "bases DiagnosticError = [TVMError]"

text \<open>\<open>cls.__name__\<close>: the identifier of the class statement.\<close>

fun class_name :: "pyclass \<Rightarrow> string" where
  "class_name Object = ''object''"
| "class_name BaseException = ''BaseException''"
| "class_name Exception = ''Exception''"
| "class_name RuntimeError = ''RuntimeError''"
| "class_name OSError = ''OSError''"
| "class_name TimeoutError = ''TimeoutError''"
| "class_name NotImplementedError = ''NotImplementedError''"
| "class_name AttributeError = ''AttributeError''"
| "class_name TVMError = ''TVMError''"
| "class_name InternalError = ''InternalError''"
| "class_name RPCError = ''RPCError''"
| "class_name RPCSessionTimeoutError = ''RPCSessionTimeoutError''"
| "class_name OpError = ''OpError''"
| "class_name OpNotImplemented = ''OpNotImplemented''"
| "class_name OpAttributeRequired = ''OpAttributeRequired''"
| "class_name OpAttributeInvalid = ''OpAttributeInvalid''"
| "class_name OpAttributeUnImplemented = ''OpAttributeUnImplemented''"
| "class_name DiagnosticError = ''DiagnosticError''"

text \<open>The classes the module defines, in the order of their statements.\<close>

definition module_classes :: "pyclass list" where
  "module_classes =
     [TVMError, InternalError, RPCError, RPCSessionTimeoutError, OpError,
      OpNotImplemented, OpAttributeRequired, OpAttributeInvalid,
      OpAttributeUnImplemented, DiagnosticError]"

text \<open>
  The classes decorated with \<open>@register_error\<close>, in the order in which the decorator
  runs when the module is loaded. \<open>TVMError\<close> carries no decorator.
\<close>

definition registered_classes :: "pyclass list" where
  "registered_classes =
     [InternalError, RPCError, RPCSessionTimeoutError, OpError,
      OpNotImplemented, OpAttributeRequired, OpAttributeInvalid,
      OpAttributeUnImplemented, DiagnosticError]"

subsection \<open>Subclassing\<close>

text \<open>
  The distance of a class from \<open>object\<close> along its longest chain of bases. It
  decreases from a class to each of its bases, which is why following bases ends.
\<close>

fun height :: "pyclass \<Rightarrow> nat" where
  "height Object = 0"
| "height BaseException = 1"
| "height Exception = 2"
| "height RuntimeError = 3"
| "height OSError = 3"
| "height TimeoutError = 4"
| "height NotImplementedError = 4"
| "height AttributeError = 3"
| "height TVMError = 4"
| "height InternalError = 5"
| "height RPCError = 5"
| "height RPCSessionTimeoutError = 6"
| "height OpError = 5"
| "height OpNotImplemented = 6"
| "height OpAttributeRequired = 6"
| "height OpAttributeInvalid = 6"
| "height OpAttributeUnImplemented = 6"
| "height DiagnosticError = 5"

lemma bases_lower: "b \<in> set (bases c) \<Longrightarrow> height b < height c"
  by (cases c) auto

text \<open>
  All classes reachable from a class through its bases, the class itself first. A class
  is in the method resolution order of \<open>c\<close> exactly when it is in this list, and
  \<open>issubclass\<close>, \<open>isinstance\<close> and an \<open>except\<close> clause test that membership.
\<close>

function supers :: "pyclass \<Rightarrow> pyclass list" where
  "supers c = c # concat (map supers (bases c))"
  by pat_completeness auto
termination
  by (relation "measure height") (auto simp: bases_lower)

declare supers.simps [simp del]

definition issubclass :: "pyclass \<Rightarrow> pyclass \<Rightarrow> bool" where
  "issubclass c d = (d \<in> set (supers c))"

subsection \<open>Raised errors\<close>

text \<open>
  Each error class takes an error message as its input: \<open>raise C(msg)\<close> makes an
  instance whose type is \<open>C\<close> and whose argument is the message.
\<close>

record exc =
  exc_class :: pyclass
  exc_message :: string

definition raise_error :: "pyclass \<Rightarrow> string \<Rightarrow> exc" where
  "raise_error c msg = \<lparr>exc_class = c, exc_message = msg\<rparr>"

text \<open>\<open>isinstance(e, d)\<close>, which is what \<open>except d:\<close> tests.\<close>

definition isinstance :: "exc \<Rightarrow> pyclass \<Rightarrow> bool" where
  "isinstance e d = issubclass (exc_class e) d"

section \<open>Domain categories and facets\<close>

text \<open>
  A class statement of the module lists up to two kinds of bases: an error class of the
  module, and a generic exception of the language (\<open>TimeoutError\<close>,
  \<open>NotImplementedError\<close>, \<open>AttributeError\<close>). The first is the domain category of
  the class, the second is what lets a handler for the generic exception catch it.

  The domain parent of a class is its base that is itself a registered error class.
  \<open>TVMError\<close> is not registered, so a class whose only base is \<open>TVMError\<close> is a
  category without a parent.
\<close>

definition domain_base :: "pyclass \<Rightarrow> pyclass option" where
  "domain_base c = find (\<lambda>b. b \<in> set registered_classes) (bases c)"

lemma domain_base_lower: "domain_base c = Some p \<Longrightarrow> height p < height c"
  by (auto simp: domain_base_def find_Some_iff intro!: bases_lower)

text \<open>The class followed by its domain parent, the parent of that, and so on.\<close>

function domain_ancestors :: "pyclass \<Rightarrow> pyclass list" where
  "domain_ancestors c =
     c # (case domain_base c of None \<Rightarrow> [] | Some p \<Rightarrow> domain_ancestors p)"
  by pat_completeness auto
termination
  by (relation "measure height") (auto simp: domain_base_lower)

declare domain_ancestors.simps [simp del]

text \<open>
  The bases of a class statement that the module does not define: the generic exceptions
  of the language the class derives from directly.
\<close>

definition generic_bases :: "pyclass \<Rightarrow> pyclass list" where
  "generic_bases c = filter (\<lambda>b. b \<notin> set module_classes) (bases c)"

text \<open>
  The facet names are those of the error taxonomy. In the module a facet exists only as
  the generic exception a class derives from, and \<open>facet_base\<close> gives that exception:
  \<open>RPCSessionTimeoutError\<close> derives from \<open>TimeoutError\<close>, \<open>OpNotImplemented\<close> and
  \<open>OpAttributeUnImplemented\<close> from \<open>NotImplementedError\<close>, and both
  \<open>OpAttributeRequired\<close> (the missing attribute) and \<open>OpAttributeInvalid\<close> (the invalid
  attribute) from \<open>AttributeError\<close>, the only generic attribute exception there is.
  Lemma \<open>facet_base_listed\<close> below checks each line against the class statements: for
  every kind the taxonomy tags with a facet, the one generic base its class statement
  lists is the \<open>facet_base\<close> of that facet.
\<close>

datatype facet = Timeout | NotImplemented | AttributeMissing | AttributeInvalid

fun facet_base :: "facet \<Rightarrow> pyclass" where
  "facet_base Timeout = TimeoutError"
| "facet_base NotImplemented = NotImplementedError"
| "facet_base AttributeMissing = AttributeError"
| "facet_base AttributeInvalid = AttributeError"

text \<open>
  The facets whose handler catches an error of the class: those whose generic exception
  the class derives from.
\<close>

definition generic_facets :: "pyclass \<Rightarrow> facet set" where
  "generic_facets c =
     {f \<in> {Timeout, NotImplemented, AttributeMissing, AttributeInvalid}.
        issubclass c (facet_base f)}"

subsection \<open>Matching a caught error\<close>

text \<open>
  By category: the kind of the error, or one of its ancestors along the domain parents,
  is the given category identifier.
\<close>

definition by_category :: "exc \<Rightarrow> string \<Rightarrow> bool" where
  "by_category e cat = (cat \<in> set (map class_name (domain_ancestors (exc_class e))))"

text \<open>By facet: \<open>except TimeoutError:\<close> and the like, an \<open>isinstance\<close> test.\<close>

definition by_facet :: "exc \<Rightarrow> facet \<Rightarrow> bool" where
  "by_facet e f = isinstance e (facet_base f)"

text \<open>By exact kind: \<open>type(e).__name__\<close> is the given identifier.\<close>

definition exact_kind :: "exc \<Rightarrow> string \<Rightarrow> bool" where
  "exact_kind e k = (class_name (exc_class e) = k)"

section \<open>The registry and the boundary codec\<close>

text \<open>
  The module imports \<open>register_error\<close> from \<open>tvm.ffi\<close> and does not define it,
  and the decoding of a transferred error lives in \<open>tvm.ffi\<close> too. This section
  models them from the specification of the registry (its section 4.1), the codec (4.2)
  and the registration surface (4.4).
\<close>

type_synonym structured_data = string

text \<open>
  Modelled from the spec: the Variant Descriptor
  \<open>{kind, domain_parent: Option<Identifier>, facets: Set<Facet>}\<close> that
  \<open>tvm.ffi.register_error\<close> is specified to store for a class.
\<close>

record descriptor =
  kind :: string
  domain_parent :: "string option"
  facets :: "facet set"

text \<open>
  Modelled from the spec: the facet axis of the error taxonomy (its section 7), which
  tags \<open>RPCSessionTimeoutError\<close> with \<open>Timeout\<close>, \<open>OpNotImplemented\<close> and
  \<open>OpAttributeUnImplemented\<close> with \<open>NotImplemented\<close>, \<open>OpAttributeRequired\<close> with
  \<open>AttributeMissing\<close> and \<open>OpAttributeInvalid\<close> with \<open>AttributeInvalid\<close>, and no
  other kind with any facet. The module itself has no such table.
\<close>

fun taxonomy_facets :: "pyclass \<Rightarrow> facet set" where
  "taxonomy_facets RPCSessionTimeoutError = {Timeout}"
| "taxonomy_facets OpNotImplemented = {NotImplemented}"
| "taxonomy_facets OpAttributeUnImplemented = {NotImplemented}"
| "taxonomy_facets OpAttributeRequired = {AttributeMissing}"
| "taxonomy_facets OpAttributeInvalid = {AttributeInvalid}"
| "taxonomy_facets _ = {}"

text \<open>
  Modelled from the spec: the descriptor the registration surface builds for a class,
  out of the kind name, the domain category (if the class inherits a domain error base)
  and the facets the taxonomy gives the kind. The body of \<open>tvm.ffi.register_error\<close>
  that does this is missing.
\<close>

definition descriptor_of :: "pyclass \<Rightarrow> descriptor" where
  "descriptor_of c =
     \<lparr>kind = class_name c,
      domain_parent = map_option class_name (domain_base c),
      facets = taxonomy_facets c\<rparr>"

text \<open>
  Modelled from the spec: the Error Registry, a process-wide mapping from kind identifier
  to descriptor, kept by the missing \<open>tvm.ffi\<close>.
\<close>

type_synonym registry = "string \<rightharpoonup> descriptor"

datatype registration_error = DuplicateKind

text \<open>
  Modelled from the spec: \<open>lookup(kind) -> Option<VariantDescriptor>\<close> of the missing
  registry, a pure read that returns \<open>None\<close> for an unknown kind.
\<close>

definition lookup :: "registry \<Rightarrow> string \<Rightarrow> descriptor option" where
  "lookup reg k = reg k"

text \<open>
  Modelled from the spec: \<open>register(descriptor) -> Result<(), RegistrationError>\<close> of the
  missing registry. It fails with \<open>DuplicateKind\<close> if the kind is present with a
  different descriptor and succeeds as a no-op if it is present with the same one. The
  registry is process-wide state, so the call returns it next to its result.
\<close>

definition register ::
  "descriptor \<Rightarrow> registry \<Rightarrow> (registration_error + unit) \<times> registry" where
  "register d reg =
     (case lookup reg (kind d) of
        None \<Rightarrow> (Inr (), reg(kind d \<mapsto> d))
      | Some d0 \<Rightarrow> if d0 = d then (Inr (), reg) else (Inl DuplicateKind, reg))"

text \<open>
  Modelled from the spec: the decorator \<open>tvm.ffi.register_error\<close>, missing from the
  sources, which registers the descriptor of the class it decorates.
\<close>

definition register_error ::
  "pyclass \<Rightarrow> registry \<Rightarrow> (registration_error + unit) \<times> registry" where
  "register_error c reg = register (descriptor_of c) reg"

text \<open>
  Loading the module runs the decorators in the order of the class statements. A
  decorator that fails raises, which ends the loading with the registrations made so far.
\<close>

fun register_all ::
  "pyclass list \<Rightarrow> registry \<Rightarrow> (registration_error + unit) \<times> registry" where
  "register_all [] reg = (Inr (), reg)"
| "register_all (c # cs) reg =
     (case register_error c reg of
        (Inl e, reg') \<Rightarrow> (Inl e, reg')
      | (Inr u, reg') \<Rightarrow> register_all cs reg')"

definition load_module :: "registry \<Rightarrow> (registration_error + unit) \<times> registry" where
  "load_module reg = register_all registered_classes reg"

text \<open>
  Modelled from the spec: the cross-boundary transfer format, a record with the fields
  \<open>kind\<close>, \<open>message\<close> and an optional \<open>payload\<close>, produced and consumed by the
  missing codec.
\<close>

record transfer =
  wire_kind :: string
  wire_message :: string
  wire_payload :: "structured_data option"

text \<open>
  Modelled from the spec: Encode of the missing codec. An error class of the module takes
  a message and nothing else, so there is no payload to transfer.
\<close>

definition encode :: "exc \<Rightarrow> transfer" where
  "encode e =
     \<lparr>wire_kind = class_name (exc_class e), wire_message = exc_message e,
      wire_payload = None\<rparr>"

text \<open>
  Modelled from the spec: the value Decode constructs, either the concrete host error
  carrying the descriptor found with the transmitted message and payload, or the generic
  fallback carrying the raw kind string and the message.
\<close>

datatype host_error =
    Concrete descriptor string "structured_data option"
  | Fallback string string

text \<open>
  Modelled from the spec: Decode of the missing codec, which resolves the kind in the
  registry and falls back to the generic error if it is not found.
\<close>

definition decode :: "registry \<Rightarrow> transfer \<Rightarrow> host_error" where
  "decode reg t =
     (case lookup reg (wire_kind t) of
        Some d \<Rightarrow> Concrete d (wire_message t) (wire_payload t)
      | None \<Rightarrow> Fallback (wire_kind t) (wire_message t))"

section \<open>Evaluating the declarations\<close>

lemma supers_set [simp]:
  "set (supers Object) = {Object}"
  "set (supers BaseException) = {BaseException, Object}"
  "set (supers Exception) = {Exception, BaseException, Object}"
  "set (supers RuntimeError) = {RuntimeError, Exception, BaseException, Object}"
  "set (supers OSError) = {OSError, Exception, BaseException, Object}"
  "set (supers TimeoutError) = {TimeoutError, OSError, Exception, BaseException, Object}"
  "set (supers NotImplementedError) =
     {NotImplementedError, RuntimeError, Exception, BaseException, Object}"
  "set (supers AttributeError) = {AttributeError, Exception, BaseException, Object}"
  "set (supers TVMError) = {TVMError, RuntimeError, Exception, BaseException, Object}"
  "set (supers InternalError) =
     {InternalError, TVMError, RuntimeError, Exception, BaseException, Object}"
  "set (supers RPCError) =
     {RPCError, TVMError, RuntimeError, Exception, BaseException, Object}"
  "set (supers RPCSessionTimeoutError) =
     {RPCSessionTimeoutError, RPCError, TVMError, RuntimeError, TimeoutError, OSError,
      Exception, BaseException, Object}"
  "set (supers OpError) =
     {OpError, TVMError, RuntimeError, Exception, BaseException, Object}"
  "set (supers OpNotImplemented) =
     {OpNotImplemented, OpError, TVMError, NotImplementedError, RuntimeError,
      Exception, BaseException, Object}"
  "set (supers OpAttributeRequired) =
     {OpAttributeRequired, OpError, TVMError, RuntimeError, AttributeError,
      Exception, BaseException, Object}"
  "set (supers OpAttributeInvalid) =
     {OpAttributeInvalid, OpError, TVMError, RuntimeError, AttributeError,
      Exception, BaseException, Object}"
  "set (supers OpAttributeUnImplemented) =
     {OpAttributeUnImplemented, OpError, TVMError, NotImplementedError, RuntimeError,
      Exception, BaseException, Object}"
  "set (supers DiagnosticError) =
     {DiagnosticError, TVMError, RuntimeError, Exception, BaseException, Object}"
  by (auto simp: supers.simps)


text \<open>The domain parent of each class of the module.\<close>

lemma domain_base_eval [simp]:
  "domain_base TVMError = None"
  "domain_base InternalError = None"
  "domain_base RPCError = None"
  "domain_base RPCSessionTimeoutError = Some RPCError"
  "domain_base OpError = None"
  "domain_base OpNotImplemented = Some OpError"
  "domain_base OpAttributeRequired = Some OpError"
  "domain_base OpAttributeInvalid = Some OpError"
  "domain_base OpAttributeUnImplemented = Some OpError"
  "domain_base DiagnosticError = None"
  by (simp_all add: domain_base_def registered_classes_def)

lemma domain_ancestors_eval [simp]:
  "domain_ancestors InternalError = [InternalError]"
  "domain_ancestors RPCError = [RPCError]"
  "domain_ancestors RPCSessionTimeoutError = [RPCSessionTimeoutError, RPCError]"
  "domain_ancestors OpError = [OpError]"
  "domain_ancestors OpNotImplemented = [OpNotImplemented, OpError]"
  "domain_ancestors OpAttributeRequired = [OpAttributeRequired, OpError]"
  "domain_ancestors OpAttributeInvalid = [OpAttributeInvalid, OpError]"
  "domain_ancestors OpAttributeUnImplemented = [OpAttributeUnImplemented, OpError]"
  "domain_ancestors DiagnosticError = [DiagnosticError]"
  by (simp_all add: domain_ancestors.simps)

text \<open>The facets of each registered class.\<close>

lemma generic_facets_eval [simp]:
  "generic_facets InternalError = {}"
  "generic_facets RPCError = {}"
  "generic_facets RPCSessionTimeoutError = {Timeout}"
  "generic_facets OpError = {}"
  "generic_facets OpNotImplemented = {NotImplemented}"
  "generic_facets OpAttributeRequired = {AttributeMissing, AttributeInvalid}"
  "generic_facets OpAttributeInvalid = {AttributeMissing, AttributeInvalid}"
  "generic_facets OpAttributeUnImplemented = {NotImplemented}"
  "generic_facets DiagnosticError = {}"
  by (auto simp: generic_facets_def issubclass_def)

text \<open>
  Among the registered classes, walking the domain parents and testing \<open>isinstance\<close>
  agree: \<open>except OpError:\<close> catches exactly the errors that match the category
  \<open>OpError\<close>.
\<close>

lemma by_category_isinstance:
  "c \<in> set registered_classes \<Longrightarrow> d \<in> set registered_classes \<Longrightarrow>
     by_category (raise_error c msg) (class_name d) = isinstance (raise_error c msg) d"
  by (auto simp: registered_classes_def by_category_def isinstance_def issubclass_def
      raise_error_def)

text \<open>The handler of a facet catches an error exactly when the class carries the facet.\<close>

lemma generic_facets_by_facet:
  "f \<in> generic_facets c \<longleftrightarrow> by_facet (raise_error c msg) f"
  by (cases f)
    (simp_all add: generic_facets_def by_facet_def isinstance_def raise_error_def)

text \<open>
  The class statement of every kind that the taxonomy tags with a facet lists exactly one
  generic base, and it is the \<open>facet_base\<close> of that facet. So \<open>facet_base\<close> is read off
  the class statements: \<open>AttributeMissing\<close> is realised by the generic base of
  \<open>OpAttributeRequired\<close> and \<open>AttributeInvalid\<close> by that of \<open>OpAttributeInvalid\<close>, and
  both class statements say \<open>AttributeError\<close>.
\<close>

lemma facet_base_listed: "f \<in> taxonomy_facets c \<Longrightarrow> generic_bases c = [facet_base f]"
  by (cases c; cases f) (simp_all add: generic_bases_def module_classes_def)

text \<open>Every facet the taxonomy gives a kind is matched by the errors of that kind.\<close>

lemma taxonomy_facets_matched:
  "f \<in> taxonomy_facets c \<Longrightarrow> by_facet (raise_error c msg) f"
  by (cases c; cases f)
    (simp_all add: by_facet_def isinstance_def issubclass_def raise_error_def)

text \<open>
  A handler for any class other than the two attribute kinds themselves treats an
  \<open>OpAttributeRequired\<close> error and an \<open>OpAttributeInvalid\<close> error alike. Whatever generic
  exception a facet stands for, matching on it cannot succeed for one of the two kinds and
  fail for the other.
\<close>

lemma attribute_kinds_same_handlers:
  "g \<noteq> OpAttributeRequired \<Longrightarrow> g \<noteq> OpAttributeInvalid \<Longrightarrow>
     isinstance (raise_error OpAttributeRequired msg) g =
     isinstance (raise_error OpAttributeInvalid msg') g"
  by (auto simp: isinstance_def issubclass_def raise_error_def)

subsection \<open>Registering\<close>

text \<open>A registration touches no kind but its own.\<close>

lemma register_other: "k \<noteq> kind d \<Longrightarrow> lookup (snd (register d reg)) k = lookup reg k"
  by (simp add: register_def lookup_def split: option.split)

lemma register_all_other:
  "k \<notin> class_name ` set cs \<Longrightarrow> lookup (snd (register_all cs reg)) k = lookup reg k"
proof (induction cs arbitrary: reg)
  case Nil
  then show ?case by simp
next
  case (Cons c cs)
  have k: "k \<noteq> kind (descriptor_of c)"
    using Cons.prems by (auto simp: descriptor_of_def)
  obtain r reg' where step: "register_error c reg = (r, reg')"
    by (cases "register_error c reg")
  have same: "lookup reg' k = lookup reg k"
    using register_other [OF k, of reg] step by (simp add: register_error_def)
  show ?case
  proof (cases r)
    case (Inl e)
    with step same show ?thesis by simp
  next
    case (Inr u)
    have "lookup (snd (register_all cs reg')) k = lookup reg' k"
      using Cons.IH Cons.prems by simp
    with Inr step same show ?thesis by simp
  qed
qed

text \<open>Loading the module into an empty registry succeeds and registers nine kinds.\<close>

lemma load_module_empty:
  "load_module Map.empty =
     (Inr (),
      [''InternalError'' \<mapsto> descriptor_of InternalError,
       ''RPCError'' \<mapsto> descriptor_of RPCError,
       ''RPCSessionTimeoutError'' \<mapsto> descriptor_of RPCSessionTimeoutError,
       ''OpError'' \<mapsto> descriptor_of OpError,
       ''OpNotImplemented'' \<mapsto> descriptor_of OpNotImplemented,
       ''OpAttributeRequired'' \<mapsto> descriptor_of OpAttributeRequired,
       ''OpAttributeInvalid'' \<mapsto> descriptor_of OpAttributeInvalid,
       ''OpAttributeUnImplemented'' \<mapsto> descriptor_of OpAttributeUnImplemented,
       ''DiagnosticError'' \<mapsto> descriptor_of DiagnosticError])"
  by (simp add: load_module_def registered_classes_def register_error_def register_def
      lookup_def descriptor_of_def)

section \<open>Matching by facet and by category\<close>

subsection \<open>The two attribute facets\<close>



subsection \<open>Categories\<close>

text \<open>
  Claim C2. Every error of kind \<open>OpNotImplemented\<close>, whatever its message, matches the
  category \<open>OpError\<close> and does not match the category \<open>RPCError\<close>.
\<close>

theorem OpNotImplemented_category:
  "by_category (raise_error OpNotImplemented msg) ''OpError'' \<and>
   \<not> by_category (raise_error OpNotImplemented msg) ''RPCError''"
  by (simp add: by_category_def raise_error_def)

subsection \<open>The timeout facet\<close>

text \<open>
  Claim C3. Every error of kind \<open>RPCSessionTimeoutError\<close> matches the facet
  \<open>Timeout\<close>, and no error of kind \<open>OpAttributeInvalid\<close> does.
\<close>

theorem Timeout_facet_matching:
  "by_facet (raise_error RPCSessionTimeoutError msg) Timeout \<and>
   \<not> by_facet (raise_error OpAttributeInvalid msg') Timeout"
  by (simp add: by_facet_def isinstance_def issubclass_def raise_error_def)

subsection \<open>Which kinds carry a facet\<close>

text \<open>
  Claim C4, as stated, says that the kinds sharing a facet have unrelated or different
  domain parents. The two kinds that share \<open>NotImplemented\<close> have the same one:
  \<open>OpNotImplemented\<close> and \<open>OpAttributeUnImplemented\<close> both list \<open>OpError\<close> as their
  first base.
\<close>

theorem shared_facet_same_parent_counterexample:
  "by_facet (raise_error OpNotImplemented ''Operator foo is not supported in bar frontend'')
     NotImplemented \<and>
   by_facet
     (raise_error OpAttributeUnImplemented ''Attribute axis is not supported in operator foo'')
     NotImplemented \<and>
   OpNotImplemented \<noteq> OpAttributeUnImplemented \<and>
   domain_base OpNotImplemented = Some OpError \<and>
   domain_base OpAttributeUnImplemented = Some OpError"
  by (simp add: by_facet_def isinstance_def issubclass_def raise_error_def)

text \<open>
  Claim C4, amended. Among the registered classes the errors that match the facet
  \<open>NotImplemented\<close> are exactly those of kind \<open>OpNotImplemented\<close> and
  \<open>OpAttributeUnImplemented\<close>, and the errors that match \<open>Timeout\<close> are exactly those
  of kind \<open>RPCSessionTimeoutError\<close>; so matching on \<open>NotImplemented\<close> catches errors
  of both kinds and matching on \<open>Timeout\<close> catches \<open>RPCSessionTimeoutError\<close>. The
  two \<open>NotImplemented\<close> kinds have the same domain parent \<open>OpError\<close>, and the domain
  parent of \<open>RPCSessionTimeoutError\<close> is \<open>RPCError\<close>.
\<close>

theorem facet_carriers:
  "c \<in> set registered_classes \<Longrightarrow>
     (by_facet (raise_error c msg) NotImplemented \<longleftrightarrow>
        c = OpNotImplemented \<or> c = OpAttributeUnImplemented) \<and>
     (by_facet (raise_error c msg) Timeout \<longleftrightarrow> c = RPCSessionTimeoutError) \<and>
     by_facet (raise_error OpNotImplemented msg) NotImplemented \<and>
     by_facet (raise_error OpAttributeUnImplemented msg) NotImplemented \<and>
     by_facet (raise_error RPCSessionTimeoutError msg) Timeout \<and>
     domain_base OpNotImplemented = Some OpError \<and>
     domain_base OpAttributeUnImplemented = Some OpError \<and>
     domain_base RPCSessionTimeoutError = Some RPCError"
  by (auto simp: registered_classes_def by_facet_def isinstance_def issubclass_def
      raise_error_def)

theorem facet_carriers_witness:
  "OpAttributeUnImplemented \<in> set registered_classes \<and>
   by_facet
     (raise_error OpAttributeUnImplemented ''Attribute axis is not supported in operator foo'')
     NotImplemented \<and>
   \<not> by_facet
     (raise_error OpAttributeUnImplemented ''Attribute axis is not supported in operator foo'')
     Timeout"
proof -
  have h: "OpAttributeUnImplemented \<in> set registered_classes"
    by (simp add: registered_classes_def)
  show ?thesis
    using h facet_carriers [OF h, of "''Attribute axis is not supported in operator foo''"]
    by simp
qed

subsection \<open>Matches compose\<close>

text \<open>
  Claim C5. The three ways of matching do not exclude one another: every error of kind
  \<open>RPCSessionTimeoutError\<close> matches its domain category \<open>RPCError\<close>, its facet
  \<open>Timeout\<close> and its exact kind, all on the same value.
\<close>

theorem matches_compose:
  "by_category (raise_error RPCSessionTimeoutError msg) ''RPCError'' \<and>
   by_facet (raise_error RPCSessionTimeoutError msg) Timeout \<and>
   exact_kind (raise_error RPCSessionTimeoutError msg) ''RPCSessionTimeoutError''"
  by (simp add: by_category_def by_facet_def exact_kind_def isinstance_def issubclass_def
      raise_error_def)

subsection \<open>The depth of the domain hierarchy\<close>

text \<open>
  Claim C6. For every registered class the chain of domain parents has at most two
  levels, the class and one category above it: a domain parent, where there is one, is
  itself registered and has no domain parent.
\<close>

theorem domain_chain_shallow:
  "c \<in> set registered_classes \<Longrightarrow>
     length (domain_ancestors c) \<le> 2 \<and>
     (\<forall>p. domain_base c = Some p \<longrightarrow>
        p \<in> set registered_classes \<and> domain_base p = None)"
  by (auto simp: registered_classes_def)

theorem domain_chain_shallow_witness:
  "OpNotImplemented \<in> set registered_classes \<and>
   length (domain_ancestors OpNotImplemented) \<le> 2 \<and>
   domain_base OpNotImplemented = Some OpError \<and>
   OpError \<in> set registered_classes \<and> domain_base OpError = None"
proof -
  have h: "OpNotImplemented \<in> set registered_classes"
    by (simp add: registered_classes_def)
  have p: "domain_base OpNotImplemented = Some OpError"
    by simp
  show ?thesis
    using h p domain_chain_shallow [OF h] by blast
qed

section \<open>Registration and decoding\<close>

text \<open>
  Claim C7. Registering is idempotent on identical input and atomic on conflict. A
  descriptor whose kind the registry does not hold, or holds with that very descriptor,
  is accepted: the call succeeds, a second call with the same descriptor succeeds too and
  returns the registry the first call left, the descriptor is the one found under its
  kind, and every other kind is found as before. A new kind is added to the registry as
  it was; a descriptor already there leaves the registry as it was. Registering a
  different descriptor under a kind that is already there fails with \<open>DuplicateKind\<close>,
  returns the registry as it was, and the original descriptor is still the one found
  under that kind.
\<close>

theorem register_idempotent_atomic:
  "(lookup reg (kind d) = None \<or> lookup reg (kind d) = Some d \<longrightarrow>
      fst (register d reg) = Inr () \<and>
      register d (snd (register d reg)) = (Inr (), snd (register d reg)) \<and>
      lookup (snd (register d reg)) (kind d) = Some d \<and>
      (\<forall>k. k \<noteq> kind d \<longrightarrow> lookup (snd (register d reg)) k = lookup reg k)) \<and>
   (lookup reg (kind d) = None \<longrightarrow> register d reg = (Inr (), reg(kind d \<mapsto> d))) \<and>
   (lookup reg (kind d) = Some d \<longrightarrow> register d reg = (Inr (), reg)) \<and>
   (lookup reg (kind d) = Some d0 \<and> d0 \<noteq> d \<longrightarrow>
      register d reg = (Inl DuplicateKind, reg) \<and>
      lookup (snd (register d reg)) (kind d) = Some d0)"
  by (auto simp: register_def lookup_def split: option.splits if_splits)

theorem register_idempotent_atomic_witness:
  "register (descriptor_of RPCError) [''OpError'' \<mapsto> descriptor_of OpError] =
     (Inr (),
      [''OpError'' \<mapsto> descriptor_of OpError, ''RPCError'' \<mapsto> descriptor_of RPCError]) \<and>
   register (descriptor_of RPCError)
       [''OpError'' \<mapsto> descriptor_of OpError, ''RPCError'' \<mapsto> descriptor_of RPCError] =
     (Inr (),
      [''OpError'' \<mapsto> descriptor_of OpError, ''RPCError'' \<mapsto> descriptor_of RPCError]) \<and>
   lookup
     (snd (register (descriptor_of RPCError) [''OpError'' \<mapsto> descriptor_of OpError]))
     ''OpError'' = Some (descriptor_of OpError) \<and>
   register (descriptor_of OpError) [''OpError'' \<mapsto> descriptor_of OpError] =
     (Inr (), [''OpError'' \<mapsto> descriptor_of OpError]) \<and>
   register \<lparr>kind = ''OpError'', domain_parent = None, facets = {Timeout}\<rparr>
       [''OpError'' \<mapsto> descriptor_of OpError] =
     (Inl DuplicateKind, [''OpError'' \<mapsto> descriptor_of OpError]) \<and>
   lookup
     (snd (register \<lparr>kind = ''OpError'', domain_parent = None, facets = {Timeout}\<rparr>
        [''OpError'' \<mapsto> descriptor_of OpError])) ''OpError'' =
     Some (descriptor_of OpError)"
proof -
  let ?reg = "[''OpError'' \<mapsto> descriptor_of OpError]"
  let ?new = "descriptor_of RPCError"
  let ?old = "descriptor_of OpError"
  let ?other = "\<lparr>kind = ''OpError'', domain_parent = None, facets = {Timeout}\<rparr>"
  have kinds: "kind ?new = ''RPCError''" "kind ?old = ''OpError''"
    by (simp_all add: descriptor_of_def)
  have fresh: "lookup ?reg (kind ?new) = None"
    by (simp add: lookup_def kinds)
  have same: "lookup ?reg (kind ?old) = Some ?old"
    by (simp add: lookup_def kinds)
  have apart: "''OpError'' \<noteq> kind ?new"
    by (simp add: kinds)
  have present: "lookup ?reg (kind ?other) = Some ?old \<and> ?old \<noteq> ?other"
    by (simp add: lookup_def descriptor_of_def)
  note accept = register_idempotent_atomic [of ?reg ?new]
  note again = register_idempotent_atomic [of ?reg ?old]
  note refuse = register_idempotent_atomic [of ?reg ?other ?old]
  have added: "register ?new ?reg = (Inr (), ?reg(kind ?new \<mapsto> ?new))"
    using accept fresh by blast
  have twice: "register ?new (snd (register ?new ?reg)) = (Inr (), snd (register ?new ?reg))"
    using accept fresh by blast
  have kept: "lookup (snd (register ?new ?reg)) ''OpError'' = lookup ?reg ''OpError''"
    using accept fresh apart by blast
  have noop: "register ?old ?reg = (Inr (), ?reg)"
    using again same by blast
  have conflict:
    "register ?other ?reg = (Inl DuplicateKind, ?reg) \<and>
     lookup (snd (register ?other ?reg)) (kind ?other) = Some ?old"
    using refuse present by blast
  have found: "lookup ?reg ''OpError'' = Some ?old"
    by (simp add: lookup_def)
  show ?thesis
    using added twice kept noop conflict found by (simp add: kinds)
qed

text \<open>
  Claim C8. Decoding always returns a value, and for a transfer record whose kind the
  registry does not know that value is the generic fallback, carrying the kind string
  and the message exactly as they were transmitted.
\<close>

theorem decode_unknown_kind:
  "lookup reg (wire_kind t) = None \<Longrightarrow>
     decode reg t = Fallback (wire_kind t) (wire_message t)"
  by (simp add: decode_def)

theorem decode_unknown_kind_witness:
  "lookup (snd (load_module Map.empty))
     (wire_kind \<lparr>wire_kind = ''UnknownXYZ'', wire_message = ''m'', wire_payload = None\<rparr>) =
     None \<and>
   decode (snd (load_module Map.empty))
     \<lparr>wire_kind = ''UnknownXYZ'', wire_message = ''m'', wire_payload = None\<rparr> =
   Fallback ''UnknownXYZ'' ''m''"
proof -
  have h: "lookup (snd (load_module Map.empty))
     (wire_kind \<lparr>wire_kind = ''UnknownXYZ'', wire_message = ''m'', wire_payload = None\<rparr>) =
     None"
    by (simp add: load_module_empty lookup_def)
  show ?thesis
    using h decode_unknown_kind [OF h] by simp
qed

section \<open>Every error of the module is a \<open>TVMError\<close>\<close>

text \<open>
  Claim C9. Each of the nine decorated classes of the module derives from the root
  \<open>TVMError\<close>, whose only base is \<open>RuntimeError\<close>; so an error raised with any of
  these classes, whatever its message, is caught by a handler for \<open>TVMError\<close> and by
  a handler for \<open>RuntimeError\<close>.
\<close>

theorem all_errors_are_TVMError:
  "c \<in> set registered_classes \<Longrightarrow>
     issubclass c TVMError \<and> bases TVMError = [RuntimeError] \<and>
     isinstance (raise_error c msg) TVMError \<and>
     isinstance (raise_error c msg) RuntimeError"
  by (auto simp: registered_classes_def issubclass_def isinstance_def raise_error_def)

theorem all_errors_are_TVMError_witness:
  "OpAttributeInvalid \<in> set registered_classes \<and>
   issubclass OpAttributeInvalid TVMError \<and> bases TVMError = [RuntimeError] \<and>
   isinstance (raise_error OpAttributeInvalid ''bad value'') TVMError \<and>
   isinstance (raise_error OpAttributeInvalid ''bad value'') RuntimeError"
proof -
  have h: "OpAttributeInvalid \<in> set registered_classes"
    by (simp add: registered_classes_def)
  show ?thesis
    using h all_errors_are_TVMError [OF h, of "''bad value''"] by simp
qed

section \<open>What the module registers\<close>

text \<open>
  Claim C10. Exactly nine classes are passed to \<open>register_error\<close> when the module is
  loaded, and \<open>TVMError\<close> is not one of them. Loading the module into an empty
  registry succeeds and registers the names of those nine classes and no other; loading
  it into any registry leaves what is found under \<open>TVMError\<close> as it was. So after the
  module alone has been loaded \<open>TVMError\<close> is not a registered kind, and decoding a
  transferred \<open>TVMError\<close> gives the fallback.
\<close>

theorem TVMError_not_registered:
  "length registered_classes = 9 \<and>
   set registered_classes =
     {InternalError, RPCError, RPCSessionTimeoutError, OpError, OpNotImplemented,
      OpAttributeRequired, OpAttributeInvalid, OpAttributeUnImplemented, DiagnosticError} \<and>
   TVMError \<notin> set registered_classes \<and>
   fst (load_module Map.empty) = Inr () \<and>
   dom (snd (load_module Map.empty)) = class_name ` set registered_classes \<and>
   lookup (snd (load_module reg)) ''TVMError'' = lookup reg ''TVMError'' \<and>
   lookup (snd (load_module Map.empty)) ''TVMError'' = None \<and>
   decode (snd (load_module Map.empty)) (encode (raise_error TVMError msg)) =
     Fallback ''TVMError'' msg"
proof -
  have names: "''TVMError'' \<notin> class_name ` set registered_classes"
    by (simp add: registered_classes_def)
  have keep: "lookup (snd (load_module reg)) ''TVMError'' = lookup reg ''TVMError''"
    unfolding load_module_def by (rule register_all_other [OF names])
  have none: "lookup (snd (load_module Map.empty)) ''TVMError'' = None"
    by (simp add: load_module_empty lookup_def)
  have dec: "decode (snd (load_module Map.empty)) (encode (raise_error TVMError msg)) =
     Fallback ''TVMError'' msg"
    using none by (simp add: decode_def encode_def raise_error_def)
  have doms: "dom (snd (load_module Map.empty)) = class_name ` set registered_classes"
    by (auto simp: load_module_empty registered_classes_def)
  show ?thesis
    using keep none dec doms by (simp add: load_module_empty) (simp add: registered_classes_def)
qed

end
